theory Spec2Isabelle
  imports Main
begin

section \<open>Values, errors and the host application\<close>

text \<open>
  The views of \<^verbatim>\<open>datasette/views/special.py\<close> are embedded as functions over an
  explicit application state. A Python \<^verbatim>\<open>str\<close> is a \<^typ>\<open>string\<close> whose characters are
  the code points below 256; the characters with the top bit set are the non-ASCII ones.
  JSON-like Python values (actors, allow rules, token payloads) are values of \<open>json\<close>;
  a Python \<^verbatim>\<open>dict\<close> is an association list read with \<^const>\<open>map_of\<close>.
\<close>

datatype json =
    JNull
  | JBool bool
  | JInt int
  | JStr string
  | JList "json list"
  | JObj "(string \<times> json) list"

text \<open>Python truthiness (\<^verbatim>\<open>bool(v)\<close>) of such a value.\<close>

fun truthy :: "json \<Rightarrow> bool" where
  "truthy JNull = False"
| "truthy (JBool b) = b"
| "truthy (JInt n) = (n \<noteq> 0)"
| "truthy (JStr s) = (s \<noteq> [])"
| "truthy (JList xs) = (xs \<noteq> [])"
| "truthy (JObj kvs) = (kvs \<noteq> [])"

text \<open>\<^verbatim>\<open>d.get(k)\<close> on a dict, and the truthiness of its result (\<^verbatim>\<open>None\<close> is falsy).\<close>

definition dict_get :: "(string \<times> json) list \<Rightarrow> string \<Rightarrow> json" where
  "dict_get d k = (case map_of d k of None \<Rightarrow> JNull | Some v \<Rightarrow> v)"

text \<open>\<^verbatim>\<open>x or d\<close> where \<^verbatim>\<open>x\<close> is a string or \<^verbatim>\<open>None\<close>.\<close>

definition str_or :: "string option \<Rightarrow> string \<Rightarrow> string" where
  "str_or x d = (case x of None \<Rightarrow> d | Some s \<Rightarrow> if s = [] then d else s)"

datatype error =
    Forbidden string
  | TypeError
  | ValueError
  | KeyError string
  | JSONDecodeError string
  | UnboundLocalError

text \<open>
  \<^verbatim>\<open>request.actor\<close> is \<^verbatim>\<open>None\<close> or a dict; \<^verbatim>\<open>request.args\<close> holds the query string
  (\<^verbatim>\<open>.get\<close> reads the first value of a key); \<^verbatim>\<open>request.post_vars()\<close> is the dict of
  the form fields.
\<close>

type_synonym actor = "(string \<times> json) list option"

record request =
  actor :: actor
  args :: "(string \<times> string) list"
  post_vars :: "(string \<times> string) list"

definition actor_truthy :: "actor \<Rightarrow> bool" where
  "actor_truthy a = (case a of None \<Rightarrow> False | Some d \<Rightarrow> d \<noteq> [])"

definition actor_json :: "actor \<Rightarrow> json" where
  "actor_json a = (case a of None \<Rightarrow> JNull | Some d \<Rightarrow> JObj d)"

text \<open>
  One entry of \<^verbatim>\<open>Datasette._permission_checks\<close>: the actor, the permission name, the
  resource (0, 1 or 2 string segments), whether the default was used, and the result.
\<close>

record permission_check =
  check_actor :: json
  check_action :: string
  check_resource :: "string list"
  check_used_default :: bool
  check_result :: json

text \<open>
  The mutable state of the \<^verbatim>\<open>Datasette\<close> object that the views read and write:
  \<^verbatim>\<open>_root_token\<close>, \<^verbatim>\<open>_permission_checks\<close> and the \<^verbatim>\<open>allow_signed_tokens\<close> setting.
\<close>

record datasette =
  root_token :: "string option"
  permission_checks :: "permission_check list"
  allow_signed_tokens :: bool

text \<open>
  The collaborators the views call and that are not part of this file are parameters:
  \<^verbatim>\<open>ds.sign(value, namespace)\<close>, \<^verbatim>\<open>ds.urls.instance()\<close>, \<^verbatim>\<open>json.loads\<close> (the
  message of the \<^verbatim>\<open>JSONDecodeError\<close> on the left), \<^verbatim>\<open>json.dumps(v, indent=4)\<close>,
  \<^verbatim>\<open>actor_matches_allow\<close> (which returns a truth value or raises, as it may on an actor
  or a rule that is not of the shape it expects), \<^verbatim>\<open>int(time.time())\<close>, the chain of
  policy sources that \<^verbatim>\<open>permission_allowed\<close> consults, the instance-wide default
  table, the value of the \<^verbatim>\<open>default\<close> argument of \<^verbatim>\<open>permission_allowed\<close> when a call
  omits it, the names in \<^verbatim>\<open>datasette.permissions.PERMISSIONS\<close>, and the permission
  checks that rendering a template performs for a request: for each the actor, the
  permission, the resource and the default.
\<close>

type_synonym policy_source = "json \<Rightarrow> string \<Rightarrow> string list \<Rightarrow> bool option"

type_synonym check_call = "json \<times> string \<times> string list \<times> json"

record host =
  sign :: "json \<Rightarrow> string \<Rightarrow> string"
  urls_instance :: string
  json_loads :: "string \<Rightarrow> string + json"
  json_dumps :: "json \<Rightarrow> string"
  actor_matches_allow :: "json \<Rightarrow> json \<Rightarrow> error + bool"
  time_now :: int
  policy :: "policy_source list"
  default_table :: "(string \<times> bool) list"
  omitted_default :: json
  PERMISSIONS :: "string list"
  render_checks :: "string \<Rightarrow> request \<Rightarrow> check_call list"

text \<open>
  Modelled from the spec: \<^verbatim>\<open>Response\<close> (\<^verbatim>\<open>datasette.utils.asgi\<close>) is not among the
  sources. Of a redirect only the target and the cookies set on it are kept.
\<close>

record response =
  location :: string
  cookies :: "(string \<times> string) list"

definition Response_redirect :: "string \<Rightarrow> response" where
  "Response_redirect url = \<lparr>location = url, cookies = []\<rparr>"

definition set_cookie :: "response \<Rightarrow> string \<Rightarrow> string \<Rightarrow> response" where
  "set_cookie r k v = r\<lparr>cookies := cookies r @ [(k, v)]\<rparr>"

section \<open>AuthTokenView\<close>

text \<open>
  \<^verbatim>\<open>secrets.compare_digest(a, b)\<close> on two \<^verbatim>\<open>str\<close>: a \<^verbatim>\<open>TypeError\<close> when either holds
  a non-ASCII character, their equality otherwise.
\<close>

definition is_ascii :: "string \<Rightarrow> bool" where
  "is_ascii s = list_all (\<lambda>c. \<not> digit7 c) s"

definition compare_digest :: "string \<Rightarrow> string \<Rightarrow> error + bool" where
  "compare_digest a b =
     (if is_ascii a \<and> is_ascii b then Inr (a = b) else Inl TypeError)"

definition root_actor_cookie :: json where
  "root_actor_cookie = JObj [(''a'', JObj [(''id'', JStr ''root'')])]"

text \<open>
  \<^verbatim>\<open>not self.ds._root_token\<close> holds when the token is \<^verbatim>\<open>None\<close> or the empty string.
\<close>

definition AuthTokenView_get ::
  "host \<Rightarrow> datasette \<Rightarrow> request \<Rightarrow> (error + response) \<times> datasette" where
  "AuthTokenView_get h ds req =
     (let token = str_or (map_of (args req) ''token'') ''''
      in case root_token ds of
           None \<Rightarrow> (Inl (Forbidden ''Root token has already been used''), ds)
         | Some secret \<Rightarrow>
             if secret = []
             then (Inl (Forbidden ''Root token has already been used''), ds)
             else (case compare_digest token secret of
                     Inl e \<Rightarrow> (Inl e, ds)
                   | Inr True \<Rightarrow>
                       (Inr (set_cookie (Response_redirect (urls_instance h))
                               ''ds_actor'' (sign h root_actor_cookie ''actor'')),
                        ds\<lparr>root_token := None\<rparr>)
                   | Inr False \<Rightarrow> (Inl (Forbidden ''Invalid token''), ds)))"

text \<open>
  A sequence of presentations, each on the state the one before left: the outcomes in
  order, and the final state.
\<close>

fun presentations ::
  "host \<Rightarrow> datasette \<Rightarrow> request list \<Rightarrow> (error + response) list \<times> datasette" where
  "presentations h ds [] = ([], ds)"
| "presentations h ds (r # rs) =
     (let (out, ds1) = AuthTokenView_get h ds r;
          (outs, ds2) = presentations h ds1 rs
      in (out # outs, ds2))"

section \<open>The permission evaluator\<close>

text \<open>
  Modelled from the spec: \<^verbatim>\<open>Datasette.permission_allowed\<close> and
  \<^verbatim>\<open>Datasette.ensure_permissions\<close> are not among the sources. The policy sources
  (the plugin hooks in registration order, then the configured allow rules) are
  consulted in order and the first answer that is not \<^verbatim>\<open>None\<close> wins; when none
  answers the caller's default is the result. Every call appends a record to the ring
  buffer whatever the outcome; the buffer keeps the last 200 records and evicts the
  oldest first.
\<close>

definition checks_maxlen :: nat where
  "checks_maxlen = 200"

definition record_check :: "permission_check list \<Rightarrow> permission_check \<Rightarrow> permission_check list" where
  "record_check buf c = (let b = buf @ [c] in drop (length b - checks_maxlen) b)"

fun first_answer :: "policy_source list \<Rightarrow> json \<Rightarrow> string \<Rightarrow> string list \<Rightarrow> bool option" where
  "first_answer [] a p r = None"
| "first_answer (f # fs) a p r =
     (case f a p r of Some b \<Rightarrow> Some b | None \<Rightarrow> first_answer fs a p r)"

definition permission_allowed ::
  "host \<Rightarrow> datasette \<Rightarrow> json \<Rightarrow> string \<Rightarrow> string list \<Rightarrow> json \<Rightarrow> json \<times> datasette" where
  "permission_allowed h ds a p r dflt =
     (let answer = first_answer (policy h) a p r;
          result = (case answer of Some b \<Rightarrow> JBool b | None \<Rightarrow> dflt);
          c = \<lparr>check_actor = a, check_action = p, check_resource = r,
               check_used_default = (answer = None), check_result = result\<rparr>
      in (result, ds\<lparr>permission_checks := record_check (permission_checks ds) c\<rparr>))"

text \<open>
  Modelled from the spec: \<^verbatim>\<open>ensure\<close> evaluates each permission with the default
  \<^verbatim>\<open>None\<close> and fails with \<^verbatim>\<open>Forbidden\<close> on the first permission whose result, after
  the instance-wide default table has been applied to an undetermined one, is falsy.
\<close>

definition resolve_default :: "host \<Rightarrow> string \<Rightarrow> json \<Rightarrow> json" where
  "resolve_default h p r =
     (if r = JNull
      then (case map_of (default_table h) p of None \<Rightarrow> JNull | Some b \<Rightarrow> JBool b)
      else r)"

fun ensure_permissions ::
  "host \<Rightarrow> datasette \<Rightarrow> json \<Rightarrow> string list \<Rightarrow> (error + unit) \<times> datasette" where
  "ensure_permissions h ds a [] = (Inr (), ds)"
| "ensure_permissions h ds a (p # ps) =
     (let (r, ds1) = permission_allowed h ds a p [] JNull
      in if truthy (resolve_default h p r)
         then ensure_permissions h ds1 a ps
         else (Inl (Forbidden p), ds1))"

section \<open>PermissionsDebugView\<close>

text \<open>
  The first two statements of \<^verbatim>\<open>get\<close> and of \<^verbatim>\<open>post\<close>: the \<^verbatim>\<open>view-instance\<close>
  gate, then the \<^verbatim>\<open>permissions-debug\<close> check, which passes no resource and no
  default.
\<close>

definition debug_gate :: "host \<Rightarrow> datasette \<Rightarrow> request \<Rightarrow> (error + unit) \<times> datasette" where
  "debug_gate h ds req =
     (case ensure_permissions h ds (actor_json (actor req)) [''view-instance''] of
        (Inl e, ds1) \<Rightarrow> (Inl e, ds1)
      | (Inr u, ds1) \<Rightarrow>
          (let (ok, ds2) = permission_allowed h ds1 (actor_json (actor req))
                             ''permissions-debug'' [] (omitted_default h)
           in if \<not> truthy ok
              then (Inl (Forbidden ''Permission denied''), ds2)
              else (Inr (), ds2)))"

text \<open>The template context of \<^verbatim>\<open>permissions_debug.html\<close>.\<close>

record permissions_debug_context =
  pd_permission_checks :: "permission_check list"
  pd_permissions :: "string list"

text \<open>
  Modelled from the spec: \<^verbatim>\<open>BaseView.render\<close> is not among the sources. A rendered page
  is identified with its template and context. Rendering can perform permission checks
  of its own (the comment in \<^verbatim>\<open>get\<close> says so); each goes through \<^verbatim>\<open>permission_allowed\<close>
  and is recorded like any other. That is the one effect of rendering on the state kept
  here. The context is built, and the buffer copied into it, before \<^verbatim>\<open>render\<close> is called.
\<close>

fun perform_checks :: "host \<Rightarrow> datasette \<Rightarrow> check_call list \<Rightarrow> datasette" where
  "perform_checks h ds [] = ds"
| "perform_checks h ds ((a, p, r, dflt) # cs) =
     perform_checks h (snd (permission_allowed h ds a p r dflt)) cs"

definition render :: "host \<Rightarrow> string \<Rightarrow> request \<Rightarrow> datasette \<Rightarrow> datasette" where
  "render h template req ds = perform_checks h ds (render_checks h template req)"

definition PermissionsDebugView_get ::
  "host \<Rightarrow> datasette \<Rightarrow> request \<Rightarrow> (error + permissions_debug_context) \<times> datasette" where
  "PermissionsDebugView_get h ds req =
     (case debug_gate h ds req of
        (Inl e, ds2) \<Rightarrow> (Inl e, ds2)
      | (Inr u, ds2) \<Rightarrow>
          (let context = \<lparr>pd_permission_checks = rev (permission_checks ds2),
                          pd_permissions = PERMISSIONS h\<rparr>
           in (Inr context, render h ''permissions_debug.html'' req ds2)))"

text \<open>The JSON document that \<^verbatim>\<open>post\<close> answers with.\<close>

record permissions_debug_result =
  dr_actor :: json
  dr_permission :: string
  dr_resource :: "string list"
  dr_result :: json

text \<open>
  The resource tuple of \<^verbatim>\<open>post\<close>. \<^verbatim>\<open>vars[k]\<close> raises \<^verbatim>\<open>KeyError\<close> on a missing field
  and \<^verbatim>\<open>json.loads\<close> raises on a malformed actor; neither is caught.
\<close>

definition debug_resource :: "string \<Rightarrow> string \<Rightarrow> string list" where
  "debug_resource resource_1 resource_2 =
     (let resource = [];
          resource = (if resource_1 \<noteq> [] then resource @ [resource_1] else resource);
          resource = (if resource_2 \<noteq> [] then resource @ [resource_2] else resource)
      in resource)"

definition PermissionsDebugView_post ::
  "host \<Rightarrow> datasette \<Rightarrow> request \<Rightarrow> (error + permissions_debug_result) \<times> datasette" where
  "PermissionsDebugView_post h ds req =
     (case debug_gate h ds req of
        (Inl e, ds2) \<Rightarrow> (Inl e, ds2)
      | (Inr u, ds2) \<Rightarrow>
          (let vars = post_vars req in
           case map_of vars ''actor'' of
             None \<Rightarrow> (Inl (KeyError ''actor''), ds2)
           | Some actor_text \<Rightarrow>
          (case json_loads h actor_text of
             Inl msg \<Rightarrow> (Inl (JSONDecodeError msg), ds2)
           | Inr a \<Rightarrow>
          (case map_of vars ''permission'' of
             None \<Rightarrow> (Inl (KeyError ''permission''), ds2)
           | Some permission \<Rightarrow>
          (case map_of vars ''resource_1'' of
             None \<Rightarrow> (Inl (KeyError ''resource_1''), ds2)
           | Some resource_1 \<Rightarrow>
          (case map_of vars ''resource_2'' of
             None \<Rightarrow> (Inl (KeyError ''resource_2''), ds2)
           | Some resource_2 \<Rightarrow>
          (let resource = debug_resource resource_1 resource_2;
               (result, ds3) = permission_allowed h ds2 a permission resource
                                 (JStr ''USE_DEFAULT'')
           in (Inr \<lparr>dr_actor = a, dr_permission = permission,
                    dr_resource = resource, dr_result = result\<rparr>, ds3))))))))"

section \<open>AllowDebugView\<close>

definition default_actor_input :: string where
  \<open>default_actor_input = ''{"id": "root"}''\<close>

definition default_allow_input :: string where
  \<open>default_allow_input = ''{"id": "*"}''\<close>

text \<open>\<^verbatim>\<open>str(b)\<close> of a \<^verbatim>\<open>bool\<close>, and \<^verbatim>\<open>sep.join(xs)\<close>.\<close>

definition str_bool :: "bool \<Rightarrow> string" where
  "str_bool b = (if b then ''True'' else ''False'')"

fun join :: "string \<Rightarrow> string list \<Rightarrow> string" where
  "join sep [] = []"
| "join sep [x] = x"
| "join sep (x # y # ys) = x @ sep @ join sep (y # ys)"

text \<open>The template context of \<^verbatim>\<open>allow_debug.html\<close>.\<close>

record allow_debug_context =
  ad_result :: "string option"
  ad_error :: string
  ad_actor_input :: string
  ad_allow_input :: string

text \<open>
  The body of \<^verbatim>\<open>get\<close> up to the call of the matcher: the error list, the decoded
  actor and rule (unbound when decoding failed), and the two input texts to show again.
\<close>

definition allow_debug_inputs ::
  "host \<Rightarrow> request \<Rightarrow> string list \<times> json option \<times> json option \<times> string \<times> string" where
  "allow_debug_inputs h req =
     (let errors = [];
          actor_input = str_or (map_of (args req) ''actor'') default_actor_input;
          (a, actor_input, errors) =
             (case json_loads h actor_input of
                Inr v \<Rightarrow> (Some v, json_dumps h v, errors)
              | Inl ex \<Rightarrow> (None, actor_input, errors @ [''Actor JSON error: '' @ ex]));
          allow_input = str_or (map_of (args req) ''allow'') default_allow_input;
          (allow, allow_input, errors) =
             (case json_loads h allow_input of
                Inr v \<Rightarrow> (Some v, json_dumps h v, errors)
              | Inl ex \<Rightarrow> (None, allow_input, errors @ [''Allow JSON error: '' @ ex]))
      in (errors, a, allow, actor_input, allow_input))"

text \<open>
  The matcher is called only when the error list is empty; a variable that is unbound
  there would raise \<^verbatim>\<open>UnboundLocalError\<close>. The call is not guarded: what the matcher
  raises, the view raises. The page is identified with its context; the view reads no
  state and returns none.
\<close>

definition allow_debug_result ::
  "host \<Rightarrow> string list \<Rightarrow> json option \<Rightarrow> json option \<Rightarrow> error + string option" where
  "allow_debug_result h errors a allow =
     (if errors = []
      then (case (a, allow) of
              (Some a', Some allow') \<Rightarrow>
                 (case actor_matches_allow h a' allow' of
                    Inl e \<Rightarrow> Inl e
                  | Inr b \<Rightarrow> Inr (Some (str_bool b)))
            | _ \<Rightarrow> Inl UnboundLocalError)
      else Inr None)"

definition AllowDebugView_get :: "host \<Rightarrow> request \<Rightarrow> error + allow_debug_context" where
  "AllowDebugView_get h req =
     (let (errors, a, allow, actor_input, allow_input) = allow_debug_inputs h req
      in case allow_debug_result h errors a allow of
           Inl e \<Rightarrow> Inl e
         | Inr result \<Rightarrow>
             Inr \<lparr>ad_result = result,
                  ad_error = (if errors \<noteq> []
                              then join [CHR 0x0A, CHR 0x0A] errors else []),
                  ad_actor_input = actor_input,
                  ad_allow_input = allow_input\<rparr>)"

section \<open>CreateTokenView\<close>

definition check_permission :: "datasette \<Rightarrow> request \<Rightarrow> error + unit" where
  "check_permission ds req =
     (if \<not> allow_signed_tokens ds
      then Inl (Forbidden ''Signed tokens are not enabled for this Datasette instance'')
      else if \<not> actor_truthy (actor req)
      then Inl (Forbidden ''You must be logged in to create a token'')
      else (case actor req of
              None \<Rightarrow> Inl (Forbidden ''You must be logged in to create a token'')
            | Some d \<Rightarrow>
                if \<not> truthy (dict_get d ''id'')
                then Inl (Forbidden
                  ''You must be logged in as an actor with an ID to create a token'')
                else if truthy (dict_get d ''token'')
                then Inl (Forbidden
                  ''Token authentication cannot be used to create additional tokens'')
                else Inr ()))"

text \<open>The template context of \<^verbatim>\<open>create_token.html\<close>, as \<^verbatim>\<open>get\<close> and as \<^verbatim>\<open>post\<close> fill it.\<close>

record create_token_form =
  cf_actor :: actor

record create_token_context =
  ct_actor :: actor
  ct_errors :: "string list"
  ct_token :: "string option"
  ct_token_bits :: "json option"

definition CreateTokenView_get :: "host \<Rightarrow> datasette \<Rightarrow> request \<Rightarrow> error + create_token_form" where
  "CreateTokenView_get h ds req =
     (case check_permission ds req of
        Inl e \<Rightarrow> Inl e
      | Inr u \<Rightarrow> Inr \<lparr>cf_actor = actor req\<rparr>)"

text \<open>
  \<^verbatim>\<open>s.isdigit()\<close>: \<^verbatim>\<open>s\<close> is not empty and every character is a digit. Below code point
  256 the digits are \<^verbatim>\<open>0\<close> to \<^verbatim>\<open>9\<close> and the superscripts two, three and one (U+00B2,
  U+00B3, U+00B9). \<^verbatim>\<open>int(s)\<close> on such a string reads decimal digits only: a superscript
  raises \<^verbatim>\<open>ValueError\<close>. Python's integers are unbounded; the interpreter's optional
  limit on the length of a decimal string is taken to be off.
\<close>

definition decimal_chars :: string where
  "decimal_chars = ''0123456789''"

definition superscript_chars :: string where
  "superscript_chars = [CHR 0xB2, CHR 0xB3, CHR 0xB9]"

definition isdigit :: "string \<Rightarrow> bool" where
  "isdigit s = (s \<noteq> [] \<and> list_all (\<lambda>c. c \<in> set (decimal_chars @ superscript_chars)) s)"

definition digit_value :: "char \<Rightarrow> int" where
  "digit_value c = of_char c - 48"

definition py_int :: "string \<Rightarrow> error + int" where
  "py_int s =
     (if s \<noteq> [] \<and> list_all (\<lambda>c. c \<in> set decimal_chars) s
      then Inr (foldl (\<lambda>acc c. 10 * acc + digit_value c) 0 s)
      else Inl ValueError)"

text \<open>
  The part of \<^verbatim>\<open>post\<close> that reads the expiry: the error list and the duration in seconds
  (\<^verbatim>\<open>None\<close> when none was computed), or the exception that \<^verbatim>\<open>int\<close> raised.
\<close>

definition read_expiry :: "(string \<times> string) list \<Rightarrow> error + (string list \<times> int option)" where
  "read_expiry post =
     (let errors = []; duration = None in
      if str_or (map_of post ''expire_type'') [] \<noteq> []
      then (let duration_string = map_of post ''expire_duration'' in
            case duration_string of
              None \<Rightarrow> Inr (errors @ [''Invalid expire duration''], duration)
            | Some s \<Rightarrow>
                if s = [] \<or> \<not> isdigit s
                then Inr (errors @ [''Invalid expire duration''], duration)
                else (case py_int s of
                        Inl e \<Rightarrow> Inl e
                      | Inr n \<Rightarrow>
                          if \<not> n > 0
                          then Inr (errors @ [''Invalid expire duration''], duration)
                          else (let unit = str_or (map_of post ''expire_type'') [] in
                                if unit = ''minutes'' then Inr (errors, Some (n * 60))
                                else if unit = ''hours'' then Inr (errors, Some (n * 60 * 60))
                                else if unit = ''days'' then Inr (errors, Some (n * 60 * 60 * 24))
                                else Inr (errors @ [''Invalid expire duration unit''], duration))))
      else Inr (errors, duration))"

definition CreateTokenView_post :: "host \<Rightarrow> datasette \<Rightarrow> request \<Rightarrow> error + create_token_context" where
  "CreateTokenView_post h ds req =
     (case check_permission ds req of
        Inl e \<Rightarrow> Inl e
      | Inr u \<Rightarrow>
     (case read_expiry (post_vars req) of
        Inl e \<Rightarrow> Inl e
      | Inr (errors, duration) \<Rightarrow>
          if errors = []
          then (case actor req of
                  None \<Rightarrow> Inl TypeError
                | Some d \<Rightarrow>
                    (case map_of d ''id'' of
                       None \<Rightarrow> Inl (KeyError ''id'')
                     | Some actor_id \<Rightarrow>
                         (let token_bits = [(''a'', actor_id), (''t'', JInt (time_now h))];
                              token_bits =
                                (case duration of
                                   None \<Rightarrow> token_bits
                                 | Some dur \<Rightarrow>
                                     if dur \<noteq> 0 then token_bits @ [(''d'', JInt dur)]
                                     else token_bits);
                              token = ''dstok_'' @ sign h (JObj token_bits) ''token''
                          in Inr \<lparr>ct_actor = actor req, ct_errors = errors,
                                  ct_token = Some token,
                                  ct_token_bits = Some (JObj token_bits)\<rparr>)))
          else Inr \<lparr>ct_actor = actor req, ct_errors = errors,
                    ct_token = None, ct_token_bits = None\<rparr>))"

section \<open>A fixed host, states and requests for the closed examples\<close>

definition example_sign :: "json \<Rightarrow> string \<Rightarrow> string" where
  "example_sign payload namespace = namespace @ ''.signed''"

definition example_loads :: "string \<Rightarrow> string + json" where
  "example_loads s =
     (if s = default_actor_input then Inr (JObj [(''id'', JStr ''root'')])
      else if s = default_allow_input then Inr (JObj [(''id'', JStr ''*'')])
      else if s = ''1'' then Inr (JInt 1)
      else Inl ''Expecting value: line 1 column 1 (char 0)'')"

definition example_dumps :: "json \<Rightarrow> string" where
  "example_dumps v = ''<json>''"

text \<open>
  A matcher that looks the rule's keys up in the actor: it knows the rule
  \<^verbatim>\<open>{"id": "*"}\<close>, and raises \<^verbatim>\<open>TypeError\<close> on an actor that is neither \<^verbatim>\<open>None\<close> nor a
  dict.
\<close>

definition example_matches :: "json \<Rightarrow> json \<Rightarrow> error + bool" where
  "example_matches a rule =
     (case a of
        JNull \<Rightarrow> Inr False
      | JObj d \<Rightarrow> Inr (rule = JObj [(''id'', JStr ''*'')] \<and> map_of d ''id'' \<noteq> None)
      | _ \<Rightarrow> Inl TypeError)"

definition example_render_checks :: "string \<Rightarrow> request \<Rightarrow> check_call list" where
  "example_render_checks template req =
     [(actor_json (actor req), ''debug-menu'', [], JBool False),
      (actor_json (actor req), ''view-instance'', [], JNull)]"

definition example_root_policy :: policy_source where
  "example_root_policy a p r = (if a = JObj [(''id'', JStr ''root'')] then Some True else None)"

definition example_host :: host where
  "example_host =
     \<lparr>sign = example_sign, urls_instance = ''/'', json_loads = example_loads,
      json_dumps = example_dumps, actor_matches_allow = example_matches,
      time_now = 1700000000, policy = [example_root_policy],
      default_table = [(''view-instance'', True)], omitted_default = JBool False,
      PERMISSIONS = [''view-instance'', ''permissions-debug''],
      render_checks = example_render_checks\<rparr>"

definition live_ds :: datasette where
  "live_ds = \<lparr>root_token = Some ''c0ffee'', permission_checks = [], allow_signed_tokens = True\<rparr>"

definition used_ds :: datasette where
  "used_ds = \<lparr>root_token = None, permission_checks = [], allow_signed_tokens = True\<rparr>"

definition token_request :: "string \<Rightarrow> request" where
  "token_request t = \<lparr>actor = None, args = [(''token'', t)], post_vars = []\<rparr>"

definition root_request :: "(string \<times> string) list \<Rightarrow> request" where
  "root_request vars = \<lparr>actor = Some [(''id'', JStr ''root'')], args = [], post_vars = vars\<rparr>"

definition token_actor_request :: request where
  "token_actor_request =
     \<lparr>actor = Some [(''id'', JStr ''alice''), (''token'', JStr ''dstok'')], args = [],
      post_vars = []\<rparr>"

definition anonymous_request :: request where
  "anonymous_request = \<lparr>actor = None, args = [], post_vars = []\<rparr>"

definition no_id_request :: request where
  "no_id_request = \<lparr>actor = Some [(''name'', JStr ''bob'')], args = [], post_vars = []\<rparr>"

definition tokens_off_ds :: datasette where
  "tokens_off_ds = \<lparr>root_token = None, permission_checks = [], allow_signed_tokens = False\<rparr>"

definition args_request :: "(string \<times> string) list \<Rightarrow> request" where
  "args_request qs = \<lparr>actor = None, args = qs, post_vars = []\<rparr>"

definition root_check :: "string \<Rightarrow> permission_check" where
  "root_check action =
     \<lparr>check_actor = JObj [(''id'', JStr ''root'')], check_action = action,
      check_resource = [], check_used_default = False, check_result = JBool True\<rparr>"

definition debug_form :: "(string \<times> string) list" where
  "debug_form =
     [(''actor'', default_actor_input), (''permission'', ''view-table''),
      (''resource_1'', []), (''resource_2'', ''mytable'')]"

definition hours_form :: "(string \<times> string) list" where
  "hours_form = [(''expire_type'', ''hours''), (''expire_duration'', ''2'')]"

definition superscript_form :: "string \<Rightarrow> (string \<times> string) list" where
  "superscript_form unit = [(''expire_type'', unit), (''expire_duration'', [CHR 0xB2])]"

definition hours_context :: create_token_context where
  "hours_context =
     \<lparr>ct_actor = Some [(''id'', JStr ''root'')], ct_errors = [],
      ct_token = Some ''dstok_token.signed'',
      ct_token_bits = Some (JObj [(''a'', JStr ''root''), (''t'', JInt 1700000000),
                                  (''d'', JInt 7200)])\<rparr>"

section \<open>Properties of AuthTokenView\<close>

lemma AuthTokenView_get_consumed:
  "root_token ds = None \<Longrightarrow>
   AuthTokenView_get h ds req = (Inl (Forbidden ''Root token has already been used''), ds)"
  by (simp add: AuthTokenView_get_def)

lemma presentations_consumed:
  "root_token ds = None \<Longrightarrow>
   presentations h ds rs =
     (map (\<lambda>_. Inl (Forbidden ''Root token has already been used'')) rs, ds)"
  by (induction rs) (simp_all add: AuthTokenView_get_consumed)

lemma AuthTokenView_get_match:
  assumes "root_token ds = Some s" and "s \<noteq> []" and "is_ascii s"
    and "map_of (args req) ''token'' = Some s"
  shows "AuthTokenView_get h ds req =
           (Inr \<lparr>location = urls_instance h,
                 cookies = [(''ds_actor'', sign h root_actor_cookie ''actor'')]\<rparr>,
            ds\<lparr>root_token := None\<rparr>)"
  using assms
  by (simp add: AuthTokenView_get_def str_or_def compare_digest_def
      set_cookie_def Response_redirect_def)

text \<open>
  C1. While the root secret is live (a non-empty ASCII string is stored), presenting a
  value equal to it succeeds: the response redirects to the instance URL and carries
  the cookie \<^verbatim>\<open>ds_actor\<close> holding \<^verbatim>\<open>{"a": {"id": "root"}}\<close> signed under the namespace
  \<^verbatim>\<open>actor\<close>, and the secret is cleared. Every presentation after that, whatever value it
  carries, fails with \<^verbatim>\<open>Forbidden\<close> and leaves the secret cleared, so no later
  presentation succeeds.
\<close>

theorem root_bootstrap_single_use:
  assumes "root_token ds = Some s" and "s \<noteq> []" and "is_ascii s"
    and "map_of (args req) ''token'' = Some s"
  shows "\<exists>resp ds'.
           AuthTokenView_get h ds req = (Inr resp, ds') \<and>
           cookies resp = [(''ds_actor'',
              sign h (JObj [(''a'', JObj [(''id'', JStr ''root'')])]) ''actor'')] \<and>
           root_token ds' = None \<and>
           (\<forall>later. \<forall>out \<in> set (fst (presentations h ds' later)).
               \<exists>msg. out = Inl (Forbidden msg)) \<and>
           (\<forall>later. root_token (snd (presentations h ds' later)) = None)"
proof -
  let ?ds' = "ds\<lparr>root_token := None\<rparr>"
  have used: "root_token ?ds' = None" by simp
  have "AuthTokenView_get h ds req =
          (Inr \<lparr>location = urls_instance h,
                cookies = [(''ds_actor'', sign h root_actor_cookie ''actor'')]\<rparr>, ?ds')"
    using assms by (rule AuthTokenView_get_match)
  moreover have "\<forall>later. \<forall>out \<in> set (fst (presentations h ?ds' later)).
                   \<exists>msg. out = Inl (Forbidden msg)"
    by (auto simp: presentations_consumed [OF used])
  moreover have "\<forall>later. root_token (snd (presentations h ?ds' later)) = None"
    by (simp add: presentations_consumed [OF used])
  ultimately show ?thesis
    by (simp add: root_actor_cookie_def)
qed

theorem root_bootstrap_single_use_witness:
  "\<exists>resp ds'.
     AuthTokenView_get example_host live_ds (token_request ''c0ffee'') = (Inr resp, ds') \<and>
     cookies resp = [(''ds_actor'', ''actor.signed'')] \<and>
     root_token ds' = None \<and>
     (\<forall>later. \<forall>out \<in> set (fst (presentations example_host ds' later)).
         \<exists>msg. out = Inl (Forbidden msg)) \<and>
     (\<forall>later. root_token (snd (presentations example_host ds' later)) = None)"
  using root_bootstrap_single_use [of live_ds "''c0ffee''" "token_request ''c0ffee''" example_host]
  by (simp add: live_ds_def token_request_def is_ascii_def example_host_def example_sign_def)

lemma AuthTokenView_get_wrong:
  assumes "root_token ds = Some s" and "s \<noteq> []" and "is_ascii s"
    and "str_or (map_of (args req) ''token'') [] = t" and "is_ascii t" and "t \<noteq> s"
  shows "AuthTokenView_get h ds req = (Inl (Forbidden ''Invalid token''), ds)"
  using assms by (simp add: AuthTokenView_get_def compare_digest_def)

text \<open>
  C2, as stated, fails: a wrong value presented while the secret is live is answered
  with the message \<^verbatim>\<open>Invalid token\<close>, any value presented after the secret was consumed
  with \<^verbatim>\<open>Root token has already been used\<close>. The caller sees which of the two it was.
\<close>

theorem bootstrap_failures_distinguishable:
  "fst (AuthTokenView_get example_host live_ds (token_request ''wrong'')) =
     Inl (Forbidden ''Invalid token'') \<and>
   fst (AuthTokenView_get example_host used_ds (token_request ''wrong'')) =
     Inl (Forbidden ''Root token has already been used'') \<and>
   fst (AuthTokenView_get example_host live_ds (token_request ''wrong'')) \<noteq>
   fst (AuthTokenView_get example_host used_ds (token_request ''wrong''))"
  by (simp add: AuthTokenView_get_def live_ds_def used_ds_def token_request_def
      str_or_def compare_digest_def is_ascii_def)

text \<open>
  C2, amended. Both failing runs raise \<^verbatim>\<open>Forbidden\<close> and leave the state as it was; they
  differ in the message only: \<^verbatim>\<open>Invalid token\<close> for a wrong ASCII value while the
  secret is live, \<^verbatim>\<open>Root token has already been used\<close> for any value once it is consumed.
\<close>

theorem bootstrap_failures_forbidden:
  assumes "root_token ds = Some s" and "s \<noteq> []" and "is_ascii s"
    and "str_or (map_of (args req) ''token'') [] = t" and "is_ascii t" and "t \<noteq> s"
    and "root_token ds' = None"
  shows "AuthTokenView_get h ds req = (Inl (Forbidden ''Invalid token''), ds) \<and>
         AuthTokenView_get h ds' req' =
           (Inl (Forbidden ''Root token has already been used''), ds')"
  using AuthTokenView_get_wrong [OF assms(1-6)] AuthTokenView_get_consumed [OF assms(7)]
  by simp

theorem bootstrap_failures_forbidden_witness:
  "AuthTokenView_get example_host live_ds (token_request ''wrong'') =
     (Inl (Forbidden ''Invalid token''), live_ds) \<and>
   AuthTokenView_get example_host used_ds (token_request ''c0ffee'') =
     (Inl (Forbidden ''Root token has already been used''), used_ds)"
  using bootstrap_failures_forbidden [of live_ds "''c0ffee''" "token_request ''wrong''"
      "''wrong''" used_ds example_host "token_request ''c0ffee''"]
  by (simp add: live_ds_def used_ds_def token_request_def str_or_def is_ascii_def)

section \<open>Properties of CreateTokenView.check_permission\<close>

text \<open>
  C5. An actor that carries a truthy \<^verbatim>\<open>token\<close> attribute is refused by \<^verbatim>\<open>get\<close> and by
  \<^verbatim>\<open>post\<close> with \<^verbatim>\<open>Forbidden\<close>, whatever else the request and the settings hold; no
  context, hence no token, is produced.
\<close>

theorem token_actor_cannot_mint:
  assumes "actor req = Some d" and "truthy (dict_get d ''token'')"
  shows "(\<exists>msg. CreateTokenView_get h ds req = Inl (Forbidden msg)) \<and>
         (\<exists>msg. CreateTokenView_post h ds req = Inl (Forbidden msg))"
proof -
  have "\<exists>msg. check_permission ds req = Inl (Forbidden msg)"
    using assms by (simp add: check_permission_def)
  then show ?thesis
    by (auto simp: CreateTokenView_get_def CreateTokenView_post_def)
qed

theorem token_actor_cannot_mint_witness:
  "CreateTokenView_get example_host live_ds token_actor_request =
     Inl (Forbidden ''Token authentication cannot be used to create additional tokens'') \<and>
   CreateTokenView_post example_host live_ds token_actor_request =
     Inl (Forbidden ''Token authentication cannot be used to create additional tokens'')"
  using token_actor_cannot_mint [of token_actor_request
      "[(''id'', JStr ''alice''), (''token'', JStr ''dstok'')]" example_host live_ds]
  by (simp add: token_actor_request_def dict_get_def CreateTokenView_get_def
      CreateTokenView_post_def check_permission_def live_ds_def actor_truthy_def)

text \<open>
  C8. When the setting \<^verbatim>\<open>allow_signed_tokens\<close> is off, or the request has no actor
  (\<^verbatim>\<open>None\<close> or an empty dict), or the actor has no truthy \<^verbatim>\<open>id\<close>, both \<^verbatim>\<open>get\<close> and
  \<^verbatim>\<open>post\<close> fail with \<^verbatim>\<open>Forbidden\<close> and produce no context, hence no token.
\<close>

theorem create_token_preconditions:
  assumes "\<not> allow_signed_tokens ds \<or> \<not> actor_truthy (actor req) \<or>
           (\<exists>d. actor req = Some d \<and> \<not> truthy (dict_get d ''id''))"
  shows "(\<exists>msg. CreateTokenView_get h ds req = Inl (Forbidden msg)) \<and>
         (\<exists>msg. CreateTokenView_post h ds req = Inl (Forbidden msg))"
proof -
  have "\<exists>msg. check_permission ds req = Inl (Forbidden msg)"
    using assms by (auto simp: check_permission_def)
  then show ?thesis
    by (auto simp: CreateTokenView_get_def CreateTokenView_post_def)
qed

theorem create_token_preconditions_witness:
  "(\<exists>msg. CreateTokenView_get example_host tokens_off_ds (root_request []) = Inl (Forbidden msg)) \<and>
   (\<exists>msg. CreateTokenView_post example_host tokens_off_ds (root_request []) = Inl (Forbidden msg)) \<and>
   (\<exists>msg. CreateTokenView_get example_host live_ds anonymous_request = Inl (Forbidden msg)) \<and>
   (\<exists>msg. CreateTokenView_post example_host live_ds anonymous_request = Inl (Forbidden msg)) \<and>
   (\<exists>msg. CreateTokenView_get example_host live_ds no_id_request = Inl (Forbidden msg)) \<and>
   (\<exists>msg. CreateTokenView_post example_host live_ds no_id_request = Inl (Forbidden msg))"
  using create_token_preconditions [of tokens_off_ds "root_request []" example_host]
    create_token_preconditions [of live_ds anonymous_request example_host]
    create_token_preconditions [of live_ds no_id_request example_host]
  by (simp add: tokens_off_ds_def anonymous_request_def no_id_request_def actor_truthy_def
      dict_get_def)

section \<open>Properties of AllowDebugView\<close>

lemma allow_debug_inputs_eq:
  "allow_debug_inputs h req =
     (let ai = str_or (map_of (args req) ''actor'') default_actor_input;
          li = str_or (map_of (args req) ''allow'') default_allow_input
      in ((case json_loads h ai of Inl ex \<Rightarrow> [''Actor JSON error: '' @ ex] | Inr v \<Rightarrow> []) @
          (case json_loads h li of Inl ex \<Rightarrow> [''Allow JSON error: '' @ ex] | Inr v \<Rightarrow> []),
          (case json_loads h ai of Inl ex \<Rightarrow> None | Inr v \<Rightarrow> Some v),
          (case json_loads h li of Inl ex \<Rightarrow> None | Inr v \<Rightarrow> Some v),
          (case json_loads h ai of Inl ex \<Rightarrow> ai | Inr v \<Rightarrow> json_dumps h v),
          (case json_loads h li of Inl ex \<Rightarrow> li | Inr v \<Rightarrow> json_dumps h v)))"
  by (simp add: allow_debug_inputs_def Let_def split: sum.splits)

lemma allow_debug_matcher_error:
  assumes "json_loads h (str_or (map_of (args req) ''actor'') default_actor_input) = Inr a"
    and "json_loads h (str_or (map_of (args req) ''allow'') default_allow_input) = Inr rule"
    and "actor_matches_allow h a rule = Inl e"
  shows "AllowDebugView_get h req = Inl e"
  using assms
  by (simp add: AllowDebugView_get_def allow_debug_inputs_eq allow_debug_result_def)

text \<open>
  C6, amended. When the actor text does not decode, the message
  \<^verbatim>\<open>Actor JSON error: ...\<close> is in the error list, the displayed result is \<^verbatim>\<open>None\<close>, the
  displayed error is the joined list, and the page does not depend on the matcher;
  likewise for the allow text. When both decode and the matcher returns a truth value,
  the error list is empty and the displayed result is the string form of that value.
\<close>

theorem allow_debug_decode:
  fixes h req
  defines "actor_input \<equiv> str_or (map_of (args req) ''actor'') default_actor_input"
    and "allow_input \<equiv> str_or (map_of (args req) ''allow'') default_allow_input"
  shows
  "(json_loads h actor_input = Inl ex \<longrightarrow>
      ''Actor JSON error: '' @ ex \<in> set (fst (allow_debug_inputs h req)) \<and>
      (\<exists>ctx. AllowDebugView_get h req = Inr ctx \<and> ad_result ctx = None \<and>
             ad_error ctx = join [CHR 0x0A, CHR 0x0A] (fst (allow_debug_inputs h req))) \<and>
      (\<forall>m. AllowDebugView_get (h\<lparr>actor_matches_allow := m\<rparr>) req = AllowDebugView_get h req)) \<and>
   (json_loads h allow_input = Inl ex' \<longrightarrow>
      ''Allow JSON error: '' @ ex' \<in> set (fst (allow_debug_inputs h req)) \<and>
      (\<exists>ctx. AllowDebugView_get h req = Inr ctx \<and> ad_result ctx = None \<and>
             ad_error ctx = join [CHR 0x0A, CHR 0x0A] (fst (allow_debug_inputs h req))) \<and>
      (\<forall>m. AllowDebugView_get (h\<lparr>actor_matches_allow := m\<rparr>) req = AllowDebugView_get h req)) \<and>
   (json_loads h actor_input = Inr a \<and> json_loads h allow_input = Inr rule \<and>
    actor_matches_allow h a rule = Inr b \<longrightarrow>
      fst (allow_debug_inputs h req) = [] \<and>
      (\<exists>ctx. AllowDebugView_get h req = Inr ctx \<and>
             ad_result ctx = Some (str_bool b) \<and>
             ad_error ctx = []))"
  unfolding actor_input_def allow_input_def
  by (auto simp: AllowDebugView_get_def allow_debug_inputs_eq allow_debug_result_def Let_def
      split: sum.splits)

lemma example_host_loads:
  "json_loads example_host default_actor_input = Inr (JObj [(''id'', JStr ''root'')])"
  "json_loads example_host default_allow_input = Inr (JObj [(''id'', JStr ''*'')])"
  "json_loads example_host ''{'' = Inl ''Expecting value: line 1 column 1 (char 0)''"
  "json_loads example_host ''[1,'' = Inl ''Expecting value: line 1 column 1 (char 0)''"
  "json_loads example_host ''1'' = Inr (JInt 1)"
  by (simp_all add: example_host_def example_loads_def default_actor_input_def
      default_allow_input_def)

lemma example_host_matches:
  "actor_matches_allow example_host (JObj [(''id'', JStr ''root'')]) (JObj [(''id'', JStr ''*'')])
     = Inr True"
  "actor_matches_allow example_host (JInt 1) rule = Inl TypeError"
  by (simp_all add: example_host_def example_matches_def)

text \<open>
  C6, as stated, fails where both texts decode and the matcher raises: the call is not
  guarded, so the view raises and no result is displayed. The query \<^verbatim>\<open>?actor=1\<close>
  decodes to the number 1, the default rule decodes, and a matcher that looks keys up
  in the actor raises \<^verbatim>\<open>TypeError\<close> on a number.
\<close>

theorem allow_debug_matcher_raises:
  "json_loads example_host ''1'' = Inr (JInt 1) \<and>
   json_loads example_host default_allow_input = Inr (JObj [(''id'', JStr ''*'')]) \<and>
   fst (allow_debug_inputs example_host (args_request [(''actor'', ''1'')])) = [] \<and>
   AllowDebugView_get example_host (args_request [(''actor'', ''1'')]) = Inl TypeError"
  by (simp add: AllowDebugView_get_def allow_debug_inputs_eq allow_debug_result_def
      args_request_def str_or_def example_host_loads example_host_matches)

theorem allow_debug_decode_witness:
  "(\<exists>ctx. AllowDebugView_get example_host (args_request [(''actor'', ''{'')]) = Inr ctx \<and>
      ad_result ctx = None \<and>
      ad_error ctx = ''Actor JSON error: Expecting value: line 1 column 1 (char 0)'') \<and>
   (\<exists>ctx. AllowDebugView_get example_host (args_request [(''allow'', ''[1,'')]) = Inr ctx \<and>
      ad_result ctx = None \<and>
      ad_error ctx = ''Allow JSON error: Expecting value: line 1 column 1 (char 0)'') \<and>
   (\<exists>ctx. AllowDebugView_get example_host (args_request []) = Inr ctx \<and>
      ad_result ctx = Some ''True'' \<and> ad_error ctx = [])"
proof -
  let ?msg = "''Expecting value: line 1 column 1 (char 0)''"
  let ?r1 = "args_request [(''actor'', ''{'')]"
  let ?r2 = "args_request [(''allow'', ''[1,'')]"
  let ?r3 = "args_request []"
  have e1: "json_loads example_host (str_or (map_of (args ?r1) ''actor'') default_actor_input)
              = Inl ?msg"
    by (simp add: args_request_def str_or_def example_host_loads)
  have e2: "json_loads example_host (str_or (map_of (args ?r2) ''allow'') default_allow_input)
              = Inl ?msg"
    by (simp add: args_request_def str_or_def example_host_loads)
  have e3: "json_loads example_host (str_or (map_of (args ?r3) ''actor'') default_actor_input)
              = Inr (JObj [(''id'', JStr ''root'')]) \<and>
            json_loads example_host (str_or (map_of (args ?r3) ''allow'') default_allow_input)
              = Inr (JObj [(''id'', JStr ''*'')]) \<and>
            actor_matches_allow example_host (JObj [(''id'', JStr ''root'')])
              (JObj [(''id'', JStr ''*'')]) = Inr True"
    by (simp add: args_request_def str_or_def example_host_loads example_host_matches)
  have i1: "fst (allow_debug_inputs example_host ?r1) = [''Actor JSON error: '' @ ?msg]"
    by (simp add: allow_debug_inputs_eq args_request_def str_or_def example_host_loads)
  have i2: "fst (allow_debug_inputs example_host ?r2) = [''Allow JSON error: '' @ ?msg]"
    by (simp add: allow_debug_inputs_eq args_request_def str_or_def example_host_loads)
  have c1: "\<exists>ctx. AllowDebugView_get example_host ?r1 = Inr ctx \<and> ad_result ctx = None \<and>
              ad_error ctx = ''Actor JSON error: Expecting value: line 1 column 1 (char 0)''"
    using allow_debug_decode [where h = example_host and req = ?r1 and ex = ?msg,
        THEN conjunct1, THEN mp, OF e1]
    by (simp add: i1)
  have c2: "\<exists>ctx. AllowDebugView_get example_host ?r2 = Inr ctx \<and> ad_result ctx = None \<and>
              ad_error ctx = ''Allow JSON error: Expecting value: line 1 column 1 (char 0)''"
    using allow_debug_decode [where h = example_host and req = ?r2 and ex' = ?msg,
        THEN conjunct2, THEN conjunct1, THEN mp, OF e2]
    by (simp add: i2)
  have c3: "\<exists>ctx. AllowDebugView_get example_host ?r3 = Inr ctx \<and>
              ad_result ctx = Some ''True'' \<and> ad_error ctx = []"
    using allow_debug_decode [where h = example_host and req = ?r3,
        THEN conjunct2, THEN conjunct2, THEN mp, OF e3]
    by (simp add: example_host_matches str_bool_def)
  from c1 c2 c3 show ?thesis by blast
qed

lemma default_inputs_nonempty:
  "default_actor_input \<noteq> []" "default_allow_input \<noteq> []"
  by (simp_all add: default_actor_input_def default_allow_input_def)

text \<open>
  C10. The default texts are \<^verbatim>\<open>{"id": "root"}\<close> and \<^verbatim>\<open>{"id": "*"}\<close>. A request whose
  \<^verbatim>\<open>actor\<close> parameter is absent or empty is answered as if it had carried the default
  actor text, and likewise for \<^verbatim>\<open>allow\<close>. Where \<^verbatim>\<open>json.loads\<close> decodes the two
  defaults to the dicts they denote, a request with neither parameter calls the matcher
  on them: the page shows the string form of its answer and no error (and what the
  matcher raises, if it raises, the view raises).
\<close>

theorem allow_debug_defaults:
  "default_actor_input =
     ''{'' @ [CHR 0x22] @ ''id'' @ [CHR 0x22] @ '': '' @ [CHR 0x22] @ ''root'' @ [CHR 0x22] @ ''}'' \<and>
   default_allow_input =
     ''{'' @ [CHR 0x22] @ ''id'' @ [CHR 0x22] @ '': '' @ [CHR 0x22] @ ''*'' @ [CHR 0x22] @ ''}'' \<and>
   (map_of (args req) ''actor'' \<in> {None, Some []} \<longrightarrow>
      AllowDebugView_get h req =
      AllowDebugView_get h (req\<lparr>args := (''actor'', default_actor_input) # args req\<rparr>)) \<and>
   (map_of (args req) ''allow'' \<in> {None, Some []} \<longrightarrow>
      AllowDebugView_get h req =
      AllowDebugView_get h (req\<lparr>args := (''allow'', default_allow_input) # args req\<rparr>)) \<and>
   (map_of (args req) ''actor'' \<in> {None, Some []} \<and>
    map_of (args req) ''allow'' \<in> {None, Some []} \<and>
    json_loads h default_actor_input = Inr (JObj [(''id'', JStr ''root'')]) \<and>
    json_loads h default_allow_input = Inr (JObj [(''id'', JStr ''*'')]) \<longrightarrow>
      AllowDebugView_get h req =
        (case actor_matches_allow h (JObj [(''id'', JStr ''root'')])
                (JObj [(''id'', JStr ''*'')]) of
           Inl e \<Rightarrow> Inl e
         | Inr b \<Rightarrow>
             Inr \<lparr>ad_result = Some (str_bool b),
                  ad_error = [],
                  ad_actor_input = json_dumps h (JObj [(''id'', JStr ''root'')]),
                  ad_allow_input = json_dumps h (JObj [(''id'', JStr ''*'')])\<rparr>))"
proof (intro conjI impI)
  show "default_actor_input =
     ''{'' @ [CHR 0x22] @ ''id'' @ [CHR 0x22] @ '': '' @ [CHR 0x22] @ ''root'' @ [CHR 0x22] @ ''}''"
    by (simp add: default_actor_input_def)
  show "default_allow_input =
     ''{'' @ [CHR 0x22] @ ''id'' @ [CHR 0x22] @ '': '' @ [CHR 0x22] @ ''*'' @ [CHR 0x22] @ ''}''"
    by (simp add: default_allow_input_def)
next
  assume "map_of (args req) ''actor'' \<in> {None, Some []}"
  then show "AllowDebugView_get h req =
      AllowDebugView_get h (req\<lparr>args := (''actor'', default_actor_input) # args req\<rparr>)"
    using default_inputs_nonempty
    by (auto simp: AllowDebugView_get_def allow_debug_inputs_eq str_or_def)
next
  assume "map_of (args req) ''allow'' \<in> {None, Some []}"
  then show "AllowDebugView_get h req =
      AllowDebugView_get h (req\<lparr>args := (''allow'', default_allow_input) # args req\<rparr>)"
    using default_inputs_nonempty
    by (auto simp: AllowDebugView_get_def allow_debug_inputs_eq str_or_def)
next
  assume "map_of (args req) ''actor'' \<in> {None, Some []} \<and>
    map_of (args req) ''allow'' \<in> {None, Some []} \<and>
    json_loads h default_actor_input = Inr (JObj [(''id'', JStr ''root'')]) \<and>
    json_loads h default_allow_input = Inr (JObj [(''id'', JStr ''*'')])"
  then show "AllowDebugView_get h req =
        (case actor_matches_allow h (JObj [(''id'', JStr ''root'')])
                (JObj [(''id'', JStr ''*'')]) of
           Inl e \<Rightarrow> Inl e
         | Inr b \<Rightarrow>
             Inr \<lparr>ad_result = Some (str_bool b),
                  ad_error = [],
                  ad_actor_input = json_dumps h (JObj [(''id'', JStr ''root'')]),
                  ad_allow_input = json_dumps h (JObj [(''id'', JStr ''*'')])\<rparr>)"
    by (auto simp: AllowDebugView_get_def allow_debug_inputs_eq str_or_def
        allow_debug_result_def split: sum.splits)
qed

theorem allow_debug_defaults_witness:
  "AllowDebugView_get example_host (args_request []) =
     AllowDebugView_get example_host (args_request [(''actor'', default_actor_input)]) \<and>
   AllowDebugView_get example_host (args_request [(''allow'', [])]) =
     AllowDebugView_get example_host
       (args_request [(''allow'', default_allow_input), (''allow'', [])]) \<and>
   AllowDebugView_get example_host (args_request []) =
     Inr \<lparr>ad_result = Some ''True'', ad_error = [],
          ad_actor_input = ''<json>'', ad_allow_input = ''<json>''\<rparr>"
proof -
  let ?r0 = "args_request []"
  let ?r1 = "args_request [(''allow'', [])]"
  have d: "json_dumps example_host v = ''<json>''" for v
    by (simp add: example_host_def example_dumps_def)
  have a0: "map_of (args ?r0) ''actor'' \<in> {None, Some []}"
    by (simp add: args_request_def)
  have a1: "map_of (args ?r1) ''allow'' \<in> {None, Some []}"
    by (simp add: args_request_def)
  have a2: "map_of (args ?r0) ''actor'' \<in> {None, Some []} \<and>
            map_of (args ?r0) ''allow'' \<in> {None, Some []} \<and>
            json_loads example_host default_actor_input = Inr (JObj [(''id'', JStr ''root'')]) \<and>
            json_loads example_host default_allow_input = Inr (JObj [(''id'', JStr ''*'')])"
    by (simp add: args_request_def example_host_loads)
  have u0: "?r0\<lparr>args := (''actor'', default_actor_input) # args ?r0\<rparr> =
            args_request [(''actor'', default_actor_input)]"
    by (simp add: args_request_def)
  have u1: "?r1\<lparr>args := (''allow'', default_allow_input) # args ?r1\<rparr> =
            args_request [(''allow'', default_allow_input), (''allow'', [])]"
    by (simp add: args_request_def)
  note T0 = allow_debug_defaults [of ?r0 example_host, THEN conjunct2, THEN conjunct2]
  note T1 = allow_debug_defaults [of ?r1 example_host, THEN conjunct2, THEN conjunct2]
  have c0: "AllowDebugView_get example_host ?r0 =
            AllowDebugView_get example_host (args_request [(''actor'', default_actor_input)])"
    using T0 [THEN conjunct1, THEN mp, OF a0] by (simp only: u0)
  have c1: "AllowDebugView_get example_host ?r1 =
            AllowDebugView_get example_host
              (args_request [(''allow'', default_allow_input), (''allow'', [])])"
    using T1 [THEN conjunct2, THEN conjunct1, THEN mp, OF a1] by (simp only: u1)
  have c2: "AllowDebugView_get example_host ?r0 =
              Inr \<lparr>ad_result = Some ''True'', ad_error = [],
                   ad_actor_input = ''<json>'', ad_allow_input = ''<json>''\<rparr>"
    using T0 [THEN conjunct2, THEN conjunct2, THEN mp, OF a2]
    by (simp add: d example_host_matches str_bool_def)
  from c0 c1 c2 show ?thesis by blast
qed

section \<open>Properties of PermissionsDebugView\<close>


lemma last_record_check: "last (record_check buf c) = c"
  by (simp add: record_check_def checks_maxlen_def)

lemma permission_allowed_records:
  "check_resource (last (permission_checks (snd (permission_allowed h ds a p r dflt)))) = r"
  by (simp add: permission_allowed_def Let_def last_record_check)

lemma debug_resource_eq:
  "debug_resource r1 r2 = (if r1 = [] then [] else [r1]) @ (if r2 = [] then [] else [r2])"
  by (simp add: debug_resource_def)

text \<open>
  C9. When the gate has passed, the four form fields are present and the actor decodes,
  \<^verbatim>\<open>post\<close> calls the evaluator on the resource made of \<^verbatim>\<open>resource_1\<close> and then
  \<^verbatim>\<open>resource_2\<close>, each kept only when it is not empty, with the default
  \<^verbatim>\<open>USE_DEFAULT\<close>; that resource is the one in the answer and in the check the evaluator
  records. With \<^verbatim>\<open>resource_1\<close> empty and \<^verbatim>\<open>resource_2\<close> not, it is the one-segment
  tuple \<^verbatim>\<open>(resource_2,)\<close>.
\<close>

theorem permissions_debug_resource:
  assumes "debug_gate h ds req = (Inr (), ds2)"
    and "map_of (post_vars req) ''actor'' = Some actor_text"
    and "json_loads h actor_text = Inr a"
    and "map_of (post_vars req) ''permission'' = Some p"
    and "map_of (post_vars req) ''resource_1'' = Some r1"
    and "map_of (post_vars req) ''resource_2'' = Some r2"
  defines "resource \<equiv> (if r1 = [] then [] else [r1]) @ (if r2 = [] then [] else [r2])"
  shows "PermissionsDebugView_post h ds req =
           (Inr \<lparr>dr_actor = a, dr_permission = p, dr_resource = resource,
                 dr_result = fst (permission_allowed h ds2 a p resource (JStr ''USE_DEFAULT''))\<rparr>,
            snd (permission_allowed h ds2 a p resource (JStr ''USE_DEFAULT''))) \<and>
         check_resource (last (permission_checks (snd (PermissionsDebugView_post h ds req))))
           = resource \<and>
         (r1 = [] \<and> r2 \<noteq> [] \<longrightarrow> resource = [r2])"
proof -
  have post: "PermissionsDebugView_post h ds req =
           (Inr \<lparr>dr_actor = a, dr_permission = p, dr_resource = resource,
                 dr_result = fst (permission_allowed h ds2 a p resource (JStr ''USE_DEFAULT''))\<rparr>,
            snd (permission_allowed h ds2 a p resource (JStr ''USE_DEFAULT'')))"
    using assms(1-6)
    by (simp add: PermissionsDebugView_post_def debug_resource_eq resource_def
        Let_def case_prod_beta)
  show ?thesis
    unfolding post by (simp add: permission_allowed_records) (simp add: resource_def)
qed


lemma example_permission_allowed:
  "permission_allowed example_host ds (JObj [(''id'', JStr ''root'')]) p [] dflt =
     (JBool True, ds\<lparr>permission_checks := record_check (permission_checks ds) (root_check p)\<rparr>)"
  by (simp add: permission_allowed_def example_host_def example_root_policy_def
      root_check_def Let_def)

lemma example_debug_gate:
  "debug_gate example_host used_ds (root_request vars) =
     (Inr (), used_ds\<lparr>permission_checks :=
                 [root_check ''view-instance'', root_check ''permissions-debug'']\<rparr>)"
  by (simp add: debug_gate_def example_permission_allowed resolve_default_def
      root_request_def actor_json_def used_ds_def record_check_def checks_maxlen_def)

theorem permissions_debug_resource_witness:
  "fst (PermissionsDebugView_post example_host used_ds (root_request debug_form)) =
     Inr \<lparr>dr_actor = JObj [(''id'', JStr ''root'')], dr_permission = ''view-table'',
          dr_resource = [''mytable''], dr_result = JBool True\<rparr> \<and>
   check_resource (last (permission_checks
     (snd (PermissionsDebugView_post example_host used_ds (root_request debug_form))))) =
     [''mytable'']"
proof -
  have v: "map_of (post_vars (root_request debug_form)) ''actor'' = Some default_actor_input"
    "map_of (post_vars (root_request debug_form)) ''permission'' = Some ''view-table''"
    "map_of (post_vars (root_request debug_form)) ''resource_1'' = Some []"
    "map_of (post_vars (root_request debug_form)) ''resource_2'' = Some ''mytable''"
    by (simp_all add: root_request_def debug_form_def)
  have r: "fst (permission_allowed example_host ds (JObj [(''id'', JStr ''root'')]) p res dflt)
             = JBool True" for ds p res dflt
    by (simp add: permission_allowed_def example_host_def example_root_policy_def Let_def)
  note T = permissions_debug_resource [OF example_debug_gate v(1) example_host_loads(1) v(2-4)]
  have A: "fst (PermissionsDebugView_post example_host used_ds (root_request debug_form)) =
     Inr \<lparr>dr_actor = JObj [(''id'', JStr ''root'')], dr_permission = ''view-table'',
          dr_resource = [''mytable''], dr_result = JBool True\<rparr>"
    using T [THEN conjunct1] by (simp add: r)
  have B: "check_resource (last (permission_checks
     (snd (PermissionsDebugView_post example_host used_ds (root_request debug_form))))) =
     [''mytable'']"
    using T [THEN conjunct2, THEN conjunct1] by simp
  show ?thesis by (rule conjI [OF A B])
qed


lemma permission_allowed_state:
  "snd (permission_allowed h ds a p r dflt) =
     ds\<lparr>permission_checks := record_check (permission_checks ds)
          \<lparr>check_actor = a, check_action = p, check_resource = r,
           check_used_default = (first_answer (policy h) a p r = None),
           check_result = fst (permission_allowed h ds a p r dflt)\<rparr>\<rparr>"
  by (simp add: permission_allowed_def Let_def)

lemma debug_gate_state:
  assumes "debug_gate h ds req = (Inr u, ds2)"
  shows "\<exists>c1 c2. check_action c1 = ''view-instance'' \<and> check_action c2 = ''permissions-debug'' \<and>
           check_actor c1 = actor_json (actor req) \<and> check_actor c2 = actor_json (actor req) \<and>
           ds2 = ds\<lparr>permission_checks := record_check (record_check (permission_checks ds) c1) c2\<rparr>"
proof -
  let ?a = "actor_json (actor req)"
  let ?p1 = "permission_allowed h ds ?a ''view-instance'' [] JNull"
  let ?p2 = "permission_allowed h (snd ?p1) ?a ''permissions-debug'' [] (omitted_default h)"
  have "ds2 = snd ?p2"
    using assms
    by (auto simp: debug_gate_def case_prod_beta Let_def split: if_splits sum.splits prod.splits)
  then have d: "ds2 = snd ?p2" .
  define c1 where "c1 = \<lparr>check_actor = ?a, check_action = ''view-instance'',
           check_resource = [],
           check_used_default = (first_answer (policy h) ?a ''view-instance'' [] = None),
           check_result = fst ?p1\<rparr>"
  define c2 where "c2 = \<lparr>check_actor = ?a, check_action = ''permissions-debug'',
           check_resource = [],
           check_used_default = (first_answer (policy h) ?a ''permissions-debug'' [] = None),
           check_result = fst ?p2\<rparr>"
  have s1: "snd ?p1 = ds\<lparr>permission_checks := record_check (permission_checks ds) c1\<rparr>"
    unfolding c1_def by (rule permission_allowed_state)
  have s2: "snd ?p2 =
      (snd ?p1)\<lparr>permission_checks := record_check (permission_checks (snd ?p1)) c2\<rparr>"
    unfolding c2_def by (rule permission_allowed_state)
  have "ds2 = ds\<lparr>permission_checks := record_check (record_check (permission_checks ds) c1) c2\<rparr>"
    unfolding d s2 by (simp add: s1)
  moreover have "check_action c1 = ''view-instance''" "check_action c2 = ''permissions-debug''"
    "check_actor c1 = ?a" "check_actor c2 = ?a"
    by (simp_all add: c1_def c2_def)
  ultimately show ?thesis by blast
qed

lemma perform_checks_state:
  "\<exists>later. length later = length cs \<and>
     permission_checks (perform_checks h ds cs) =
       foldl record_check (permission_checks ds) later \<and>
     root_token (perform_checks h ds cs) = root_token ds \<and>
     allow_signed_tokens (perform_checks h ds cs) = allow_signed_tokens ds"
proof (induction cs arbitrary: ds)
  case Nil
  show ?case by (rule exI [of _ "[]"]) simp
next
  case (Cons c cs)
  obtain a p r dflt where c: "c = (a, p, r, dflt)"
    by (cases c) auto
  let ?ds1 = "snd (permission_allowed h ds a p r dflt)"
  define rec where "rec = \<lparr>check_actor = a, check_action = p, check_resource = r,
           check_used_default = (first_answer (policy h) a p r = None),
           check_result = fst (permission_allowed h ds a p r dflt)\<rparr>"
  have s1: "?ds1 = ds\<lparr>permission_checks := record_check (permission_checks ds) rec\<rparr>"
    unfolding rec_def by (rule permission_allowed_state)
  from Cons.IH [of ?ds1] obtain later where
    l: "length later = length cs"
    and b: "permission_checks (perform_checks h ?ds1 cs) =
              foldl record_check (permission_checks ?ds1) later"
    and t: "root_token (perform_checks h ?ds1 cs) = root_token ?ds1"
           "allow_signed_tokens (perform_checks h ?ds1 cs) = allow_signed_tokens ?ds1"
    by blast
  have p: "perform_checks h ds (c # cs) = perform_checks h ?ds1 cs"
    by (simp add: c)
  have "length (rec # later) = length (c # cs)"
    by (simp add: l)
  moreover have "permission_checks (perform_checks h ds (c # cs)) =
       foldl record_check (permission_checks ds) (rec # later)"
    unfolding p b by (simp add: s1)
  moreover have "root_token (perform_checks h ds (c # cs)) = root_token ds"
    unfolding p t by (simp add: s1)
  moreover have "allow_signed_tokens (perform_checks h ds (c # cs)) = allow_signed_tokens ds"
    unfolding p t by (simp add: s1)
  ultimately show ?case by blast
qed

lemma example_debug_get:
  "PermissionsDebugView_get example_host used_ds (root_request []) =
     (Inr \<lparr>pd_permission_checks =
             [root_check ''permissions-debug'', root_check ''view-instance''],
           pd_permissions = [''view-instance'', ''permissions-debug'']\<rparr>,
      used_ds\<lparr>permission_checks :=
                 [root_check ''view-instance'', root_check ''permissions-debug'',
                  root_check ''debug-menu'', root_check ''view-instance'']\<rparr>)"
proof -
  have rc: "render_checks example_host t (root_request []) =
              [(JObj [(''id'', JStr ''root'')], ''debug-menu'', [], JBool False),
               (JObj [(''id'', JStr ''root'')], ''view-instance'', [], JNull)]" for t
    by (simp add: example_host_def example_render_checks_def root_request_def actor_json_def)
  have pm: "PERMISSIONS example_host = [''view-instance'', ''permissions-debug'']"
    by (simp add: example_host_def)
  show ?thesis
    by (simp add: PermissionsDebugView_get_def example_debug_gate render_def rc pm
        example_permission_allowed record_check_def checks_maxlen_def)
qed

text \<open>
  C7, as stated, fails: the read is gated by two permission checks and the evaluator
  records every check, so a read on an empty buffer shows two records (the later one
  first) and leaves the buffer with them, followed by the records of the checks that
  rendering the page performed.
\<close>

theorem permissions_debug_read_mutates:
  "fst (PermissionsDebugView_get example_host used_ds (root_request [])) =
     Inr \<lparr>pd_permission_checks =
            [root_check ''permissions-debug'', root_check ''view-instance''],
          pd_permissions = [''view-instance'', ''permissions-debug'']\<rparr> \<and>
   permission_checks (snd (PermissionsDebugView_get example_host used_ds (root_request []))) =
     [root_check ''view-instance'', root_check ''permissions-debug'',
      root_check ''debug-menu'', root_check ''view-instance''] \<and>
   permission_checks used_ds = [] \<and>
   permission_checks (snd (PermissionsDebugView_get example_host used_ds (root_request []))) \<noteq>
   permission_checks used_ds"
  by (simp add: example_debug_get) (simp add: used_ds_def)

text \<open>
  C7, amended. A read that passes its gate shows, most recent first, the buffer as it
  stands when the context is built: the buffer before the read with the records of the
  gate's own two checks (\<^verbatim>\<open>view-instance\<close>, then \<^verbatim>\<open>permissions-debug\<close>, both for the
  request's actor) appended, the oldest evicted at capacity. Taking the snapshot changes
  nothing, but the read does change the buffer: afterwards it holds these two records,
  followed by one record for each check that rendering the page performs. The root token
  and the settings are as before.
\<close>

theorem permissions_debug_read:
  assumes "PermissionsDebugView_get h ds req = (Inr ctx, ds')"
  shows "\<exists>c1 c2 later.
           check_action c1 = ''view-instance'' \<and>
           check_action c2 = ''permissions-debug'' \<and>
           check_actor c1 = actor_json (actor req) \<and>
           check_actor c2 = actor_json (actor req) \<and>
           pd_permission_checks ctx =
             rev (record_check (record_check (permission_checks ds) c1) c2) \<and>
           length later = length (render_checks h ''permissions_debug.html'' req) \<and>
           permission_checks ds' =
             foldl record_check
               (record_check (record_check (permission_checks ds) c1) c2) later \<and>
           root_token ds' = root_token ds \<and>
           allow_signed_tokens ds' = allow_signed_tokens ds"
proof -
  from assms obtain u ds2 where gate: "debug_gate h ds req = (Inr u, ds2)"
    and ctx: "ctx = \<lparr>pd_permission_checks = rev (permission_checks ds2),
                     pd_permissions = PERMISSIONS h\<rparr>"
    and ds': "ds' = perform_checks h ds2 (render_checks h ''permissions_debug.html'' req)"
    by (auto simp: PermissionsDebugView_get_def render_def split: prod.splits sum.splits)
  from debug_gate_state [OF gate] obtain c1 c2 where
    c: "check_action c1 = ''view-instance''" "check_action c2 = ''permissions-debug''"
       "check_actor c1 = actor_json (actor req)" "check_actor c2 = actor_json (actor req)"
    and ds2: "ds2 = ds\<lparr>permission_checks :=
                        record_check (record_check (permission_checks ds) c1) c2\<rparr>"
    by blast
  from perform_checks_state [of "render_checks h ''permissions_debug.html'' req" h ds2]
  obtain later where
    l: "length later = length (render_checks h ''permissions_debug.html'' req)"
    and b: "permission_checks ds' = foldl record_check (permission_checks ds2) later"
    and t: "root_token ds' = root_token ds2" "allow_signed_tokens ds' = allow_signed_tokens ds2"
    unfolding ds' by blast
  have b2: "permission_checks ds2 = record_check (record_check (permission_checks ds) c1) c2"
    "root_token ds2 = root_token ds" "allow_signed_tokens ds2 = allow_signed_tokens ds"
    by (simp_all add: ds2)
  have "pd_permission_checks ctx =
          rev (record_check (record_check (permission_checks ds) c1) c2)"
    by (simp add: ctx b2)
  moreover have "permission_checks ds' =
      foldl record_check (record_check (record_check (permission_checks ds) c1) c2) later"
    by (simp add: b b2)
  moreover have "root_token ds' = root_token ds" "allow_signed_tokens ds' = allow_signed_tokens ds"
    by (simp_all add: t b2)
  ultimately show ?thesis
    using c l by blast
qed

theorem permissions_debug_read_witness:
  "PermissionsDebugView_get example_host used_ds (root_request []) =
     (Inr \<lparr>pd_permission_checks =
             [root_check ''permissions-debug'', root_check ''view-instance''],
           pd_permissions = [''view-instance'', ''permissions-debug'']\<rparr>,
      used_ds\<lparr>permission_checks :=
                 [root_check ''view-instance'', root_check ''permissions-debug'',
                  root_check ''debug-menu'', root_check ''view-instance'']\<rparr>) \<and>
   (\<exists>c1 c2 later. check_action c1 = ''view-instance'' \<and>
      check_action c2 = ''permissions-debug'' \<and>
      [root_check ''permissions-debug'', root_check ''view-instance''] =
        rev (record_check (record_check (permission_checks used_ds) c1) c2) \<and>
      length later = length (render_checks example_host ''permissions_debug.html''
                               (root_request [])) \<and>
      [root_check ''view-instance'', root_check ''permissions-debug'',
       root_check ''debug-menu'', root_check ''view-instance''] =
        foldl record_check
          (record_check (record_check (permission_checks used_ds) c1) c2) later)"
proof -
  from permissions_debug_read [OF example_debug_get]
  have "\<exists>c1 c2 later. check_action c1 = ''view-instance'' \<and>
      check_action c2 = ''permissions-debug'' \<and>
      [root_check ''permissions-debug'', root_check ''view-instance''] =
        rev (record_check (record_check (permission_checks used_ds) c1) c2) \<and>
      length later = length (render_checks example_host ''permissions_debug.html''
                               (root_request [])) \<and>
      [root_check ''view-instance'', root_check ''permissions-debug'',
       root_check ''debug-menu'', root_check ''view-instance''] =
        foldl record_check
          (record_check (record_check (permission_checks used_ds) c1) c2) later"
    by (simp add: ex_simps [symmetric] del: ex_simps) blast
  with example_debug_get show ?thesis by blast
qed

section \<open>Properties of CreateTokenView.post\<close>

lemma read_expiry_no_errors:
  assumes "read_expiry post = Inr ([], dur)"
  defines "unit \<equiv> str_or (map_of post ''expire_type'') []"
  shows "(unit = [] \<and> dur = None) \<or>
         (unit \<noteq> [] \<and>
          (\<exists>s n. map_of post ''expire_duration'' = Some s \<and> isdigit s \<and>
                 py_int s = Inr n \<and> 0 < n \<and>
                 ((unit = ''minutes'' \<and> dur = Some (n * 60)) \<or>
                  (unit = ''hours'' \<and> dur = Some (n * 3600)) \<or>
                  (unit = ''days'' \<and> dur = Some (n * 86400)))))"
  using assms(1) unfolding unit_def read_expiry_def Let_def
  by (auto split: if_splits option.splits sum.splits)

lemma check_permission_id:
  "check_permission ds req = Inr u \<Longrightarrow>
   \<exists>d v. actor req = Some d \<and> map_of d ''id'' = Some v \<and> truthy v"
  by (auto simp: check_permission_def dict_get_def split: if_splits option.splits)

text \<open>
  C3. When \<^verbatim>\<open>post\<close> returns with an empty error list, the token is \<^verbatim>\<open>dstok_\<close> followed
  by the signature, under the namespace \<^verbatim>\<open>token\<close>, of the payload shown as
  \<^verbatim>\<open>token_bits\<close>. The payload holds the actor's id under \<^verbatim>\<open>a\<close> and the current time
  under \<^verbatim>\<open>t\<close> and nothing else when no expiry was requested; when one was requested with
  unit \<^verbatim>\<open>u\<close> and count \<^verbatim>\<open>n\<close>, the count is a positive integer and the payload also holds
  under \<^verbatim>\<open>d\<close> the value \<^verbatim>\<open>n * 60\<close> for minutes, \<^verbatim>\<open>n * 3600\<close> for hours and
  \<^verbatim>\<open>n * 86400\<close> for days.
\<close>

theorem token_issuance_payload:
  assumes "CreateTokenView_post h ds req = Inr ctx" and "ct_errors ctx = []"
  defines "unit \<equiv> str_or (map_of (post_vars req) ''expire_type'') []"
  shows "\<exists>d actor_id bits.
           actor req = Some d \<and> map_of d ''id'' = Some actor_id \<and>
           ct_token_bits ctx = Some (JObj bits) \<and>
           ct_token ctx = Some (''dstok_'' @ sign h (JObj bits) ''token'') \<and>
           (unit = [] \<longrightarrow> bits = [(''a'', actor_id), (''t'', JInt (time_now h))]) \<and>
           (unit \<noteq> [] \<longrightarrow>
              (\<exists>s n. map_of (post_vars req) ''expire_duration'' = Some s \<and> isdigit s \<and>
                     py_int s = Inr n \<and> 0 < n \<and>
                     ((unit = ''minutes'' \<and>
                       bits = [(''a'', actor_id), (''t'', JInt (time_now h)), (''d'', JInt (n * 60))]) \<or>
                      (unit = ''hours'' \<and>
                       bits = [(''a'', actor_id), (''t'', JInt (time_now h)), (''d'', JInt (n * 3600))]) \<or>
                      (unit = ''days'' \<and>
                       bits = [(''a'', actor_id), (''t'', JInt (time_now h)), (''d'', JInt (n * 86400))]))))"
proof -
  from assms(1) obtain u where perm: "check_permission ds req = Inr u"
    by (auto simp: CreateTokenView_post_def split: sum.splits)
  from check_permission_id [OF perm] obtain d actor_id where
    d: "actor req = Some d" "map_of d ''id'' = Some actor_id"
    by blast
  from assms(1,2) perm obtain dur where re: "read_expiry (post_vars req) = Inr ([], dur)"
    by (auto simp: CreateTokenView_post_def split: sum.splits prod.splits if_splits)
  define bits where "bits = [(''a'', actor_id), (''t'', JInt (time_now h))] @
     (case dur of None \<Rightarrow> [] | Some n \<Rightarrow> if n \<noteq> 0 then [(''d'', JInt n)] else [])"
  have ctx: "ctx = \<lparr>ct_actor = actor req, ct_errors = [],
                    ct_token = Some (''dstok_'' @ sign h (JObj bits) ''token''),
                    ct_token_bits = Some (JObj bits)\<rparr>"
    using assms(1) perm re d
    by (auto simp: CreateTokenView_post_def bits_def Let_def split: option.splits)
  note cases = read_expiry_no_errors [OF re, folded unit_def]
  have "unit = [] \<longrightarrow> bits = [(''a'', actor_id), (''t'', JInt (time_now h))]"
    using cases by (auto simp: bits_def)
  moreover have "unit \<noteq> [] \<longrightarrow>
              (\<exists>s n. map_of (post_vars req) ''expire_duration'' = Some s \<and> isdigit s \<and>
                     py_int s = Inr n \<and> 0 < n \<and>
                     ((unit = ''minutes'' \<and>
                       bits = [(''a'', actor_id), (''t'', JInt (time_now h)), (''d'', JInt (n * 60))]) \<or>
                      (unit = ''hours'' \<and>
                       bits = [(''a'', actor_id), (''t'', JInt (time_now h)), (''d'', JInt (n * 3600))]) \<or>
                      (unit = ''days'' \<and>
                       bits = [(''a'', actor_id), (''t'', JInt (time_now h)), (''d'', JInt (n * 86400))])))"
    using cases by (auto simp: bits_def)
  ultimately show ?thesis
    using d ctx by auto
qed


lemma example_check_permission:
  "check_permission live_ds (root_request vars) = Inr ()"
  by (simp add: check_permission_def live_ds_def root_request_def actor_truthy_def dict_get_def)

lemma example_hours_post:
  "CreateTokenView_post example_host live_ds (root_request hours_form) = Inr hours_context"
proof -
  have re: "read_expiry hours_form = Inr ([], Some 7200)"
    by (simp add: read_expiry_def hours_form_def str_or_def isdigit_def py_int_def
        decimal_chars_def superscript_chars_def digit_value_def)
  have pv: "post_vars (root_request hours_form) = hours_form"
    "actor (root_request hours_form) = Some [(''id'', JStr ''root'')]"
    by (simp_all add: root_request_def)
  show ?thesis
    by (simp add: CreateTokenView_post_def example_check_permission pv re hours_context_def)
       (simp add: example_host_def example_sign_def)
qed

theorem token_issuance_payload_witness:
  "CreateTokenView_post example_host live_ds (root_request hours_form) = Inr hours_context \<and>
   ct_errors hours_context = [] \<and>
   (\<exists>bits. ct_token_bits hours_context = Some (JObj bits) \<and>
      ct_token hours_context = Some (''dstok_'' @ sign example_host (JObj bits) ''token'') \<and>
      bits = [(''a'', JStr ''root''), (''t'', JInt (time_now example_host)), (''d'', JInt (2 * 3600))])"
proof -
  have e: "ct_errors hours_context = []"
    by (simp add: hours_context_def)
  have u: "str_or (map_of (post_vars (root_request hours_form)) ''expire_type'') [] = ''hours''"
    by (simp add: root_request_def hours_form_def str_or_def)
  have s: "map_of (post_vars (root_request hours_form)) ''expire_duration'' = Some ''2''"
    by (simp add: root_request_def hours_form_def)
  have n: "py_int ''2'' = Inr 2"
    by (simp add: py_int_def decimal_chars_def digit_value_def)
  have a: "actor (root_request hours_form) = Some [(''id'', JStr ''root'')]"
    by (simp add: root_request_def)
  from token_issuance_payload [OF example_hours_post e]
  have "\<exists>bits. ct_token_bits hours_context = Some (JObj bits) \<and>
      ct_token hours_context = Some (''dstok_'' @ sign example_host (JObj bits) ''token'') \<and>
      bits = [(''a'', JStr ''root''), (''t'', JInt (time_now example_host)), (''d'', JInt (2 * 3600))]"
    by (auto simp: u s n a)
  with example_hours_post e show ?thesis by blast
qed

text \<open>
  Where an expiry is requested and the count is missing, fails \<^verbatim>\<open>isdigit\<close>, or is read by
  \<^verbatim>\<open>int\<close> as a number that is not positive or comes with a unit other than minutes,
  hours and days, \<^verbatim>\<open>post\<close> returns a non-empty error list and no token.
\<close>

lemma invalid_expiry_reported:
  assumes "check_permission ds req = Inr ()"
    and "str_or (map_of (post_vars req) ''expire_type'') [] = unit" and "unit \<noteq> []"
    and "map_of (post_vars req) ''expire_duration'' = None \<or>
         (\<exists>s. map_of (post_vars req) ''expire_duration'' = Some s \<and>
              (\<not> isdigit s \<or>
               (\<exists>n. py_int s = Inr n \<and>
                    (n \<le> 0 \<or> unit \<notin> {''minutes'', ''hours'', ''days''}))))"
  shows "\<exists>errors. errors \<noteq> [] \<and>
           CreateTokenView_post h ds req =
             Inr \<lparr>ct_actor = actor req, ct_errors = errors,
                  ct_token = None, ct_token_bits = None\<rparr>"
  using assms
  by (auto simp: CreateTokenView_post_def read_expiry_def Let_def)

text \<open>
  C4 says that an invalid expiry, among them a unit outside minutes, hours and days, is
  answered with a list of validation errors and never with an exception. The code guards
  \<^verbatim>\<open>int(duration_string)\<close> with \<^verbatim>\<open>isdigit()\<close>, which accepts the superscript two
  that \<^verbatim>\<open>int\<close> rejects: with that count \<^verbatim>\<open>post\<close> raises \<^verbatim>\<open>ValueError\<close>, be the unit
  \<^verbatim>\<open>fortnights\<close> or \<^verbatim>\<open>minutes\<close>.
\<close>

theorem superscript_count_raises:
  "CreateTokenView_post example_host live_ds (root_request (superscript_form ''fortnights'')) =
     Inl ValueError \<and>
   CreateTokenView_post example_host live_ds (root_request (superscript_form ''minutes'')) =
     Inl ValueError \<and>
   isdigit [CHR 0xB2] \<and> py_int [CHR 0xB2] = Inl ValueError"
proof -
  have d: "isdigit [CHR 0xB2]"
    by (simp add: isdigit_def decimal_chars_def superscript_chars_def)
  have i: "py_int [CHR 0xB2] = Inl ValueError"
    by (simp add: py_int_def decimal_chars_def)
  have re: "read_expiry (superscript_form unit) = Inl ValueError" if "unit \<noteq> []" for unit
    using that by (simp add: read_expiry_def superscript_form_def str_or_def d i)
  have pv: "post_vars (root_request vars) = vars" for vars
    by (simp add: root_request_def)
  show ?thesis
    by (simp add: CreateTokenView_post_def example_check_permission pv re d i)
qed

end
